theory Spec2Isabelle
  imports Main
begin

section \<open>Data model\<close>

text \<open>
  The three document collections of the server (\<^verbatim>\<open>server/models/Board.js\<close>,
  \<^verbatim>\<open>server/models/List.js\<close>, \<^verbatim>\<open>server/models/Task.js\<close>). Object ids are
  compared by the source through \<^verbatim>\<open>toString()\<close>; they are natural numbers here.
  Only the fields read or written by the task and list ordering handlers are kept:
  a member entry is its user id (role and join date are not read by these handlers),
  and the time stamps that the store maintains by itself are left out.
\<close>

type_synonym oid = nat

record activity_entry =
  act_user :: oid
  act_action :: string
  act_details :: string

record board =
  board_id :: oid
  board_title :: string
  board_owner :: oid
  board_members :: "oid list"
  board_lists :: "oid list"
  board_activity :: "activity_entry list"

record tlist =
  list_id :: oid
  list_title :: string
  list_board :: oid
  list_tasks :: "oid list"
  list_position :: nat
  list_isArchived :: bool

record task =
  task_id :: oid
  task_title :: string
  task_list :: oid
  task_board :: oid
  task_position :: nat

text \<open>
  The database: each collection is the sequence of its documents in insertion order;
  \<open>db_next_oid\<close> is the source of fresh object ids for \<^verbatim>\<open>new Task(...)\<close>.
\<close>

record db =
  db_boards :: "board list"
  db_lists :: "tlist list"
  db_tasks :: "task list"
  db_next_oid :: oid

text \<open>
  The error answers of the handlers by status: 404, 403, 400 (the validators of the
  route refuse the request) and 500 (an exception reaches the \<^verbatim>\<open>catch\<close> block of
  the handler).
\<close>

datatype error = NotFound | AccessDenied | BadRequest | ServerError

text \<open>
  The payloads of the real-time events, field by field as the handlers build them.
  \<open>TaskCreated\<close>, \<open>TaskUpdated\<close>: task, listId, boardId, userId.
  \<open>TaskDeleted\<close>: taskId, listId, boardId, userId.
  \<open>TaskMoved\<close>: taskId, sourceListId, destinationListId, newPosition, boardId, userId.
  \<open>TasksReordered\<close>: listId, taskIds, boardId, userId.
  \<open>ListUpdated\<close>, \<open>ListArchived\<close>: list, boardId, userId.
  \<open>ListsReordered\<close>: boardId, listIds, userId.
\<close>

datatype event =
    TaskCreated task oid oid oid
  | TaskUpdated task oid oid oid
  | TaskDeleted oid oid oid oid
  | TaskMoved oid oid oid nat oid oid
  | TasksReordered oid "oid list" oid oid
  | ListUpdated tlist oid oid
  | ListArchived tlist oid oid
  | ListsReordered oid "oid list" oid

text \<open>An emission \<^verbatim>\<open>req.io.to(room).emit(name, payload)\<close>: the room and the event.\<close>

type_synonym emission = "oid \<times> event"

text \<open>
  What a handler leaves behind: the database after its writes, and its answer, an error
  or the event emitted with the success answer.
\<close>

type_synonym response = "error + emission"

type_synonym result = "db \<times> response"

text \<open>
  A request as a handler sees it. A path segment is the text of an object id or any
  other text; \<^verbatim>\<open>findById\<close> casts the \<^verbatim>\<open>:id\<close> parameter to an object id and
  throws on any other text. Body fields that a route's validators require
  (\<^verbatim>\<open>isMongoId\<close>, \<^verbatim>\<open>isInt({ min: 0 })\<close>, \<^verbatim>\<open>isArray\<close> of strings) are
  \<open>None\<close> when absent or refused by the validator. Fields of the documents that are
  outside the data model have no body field here.
\<close>

datatype segment = Oid oid | Word string

record body =
  body_title :: "string option"
  body_position :: "int option"
  body_sourceListId :: "oid option"
  body_destinationListId :: "oid option"
  body_newPosition :: "nat option"
  body_listId :: "oid option"
  body_taskIds :: "oid list option"
  body_boardId :: "oid option"
  body_listIds :: "oid list option"

section \<open>Persistence primitives\<close>

text \<open>
  \<^verbatim>\<open>findById\<close> returns a fresh copy of the stored document, \<^verbatim>\<open>save\<close> writes the
  copy held by the handler back over the stored document with the same id (or inserts
  it when there is none), \<^verbatim>\<open>findByIdAndUpdate(id, {position: p})\<close> rewrites one
  field in place and \<^verbatim>\<open>findByIdAndDelete\<close> removes the document. The one
  write that the store refuses in these handlers is the second save of the move
  handler when both of its lists are the same document (see there).
\<close>

definition findById_board :: "board list \<Rightarrow> oid \<Rightarrow> board option" where
  "findById_board bs i = find (\<lambda>b. board_id b = i) bs"

definition findById_list :: "tlist list \<Rightarrow> oid \<Rightarrow> tlist option" where
  "findById_list ls i = find (\<lambda>l. list_id l = i) ls"

definition findById_task :: "task list \<Rightarrow> oid \<Rightarrow> task option" where
  "findById_task ts i = find (\<lambda>t. task_id t = i) ts"

text \<open>
  \<^verbatim>\<open>boardSchema.pre('save', ...)\<close>: the owner is filtered out of the member list
  each time a board is saved.
\<close>

definition board_pre_save :: "board \<Rightarrow> board" where
  "board_pre_save b = b\<lparr>board_members := filter (\<lambda>m. m \<noteq> board_owner b) (board_members b)\<rparr>"

definition save_board :: "board \<Rightarrow> board list \<Rightarrow> board list" where
  "save_board b bs =
     (let b' = board_pre_save b
      in if board_id b' \<in> set (map board_id bs)
         then map (\<lambda>x. if board_id x = board_id b' then b' else x) bs
         else bs @ [b'])"

definition save_list :: "tlist \<Rightarrow> tlist list \<Rightarrow> tlist list" where
  "save_list l ls =
     (if list_id l \<in> set (map list_id ls)
      then map (\<lambda>x. if list_id x = list_id l then l else x) ls
      else ls @ [l])"

definition save_task :: "task \<Rightarrow> task list \<Rightarrow> task list" where
  "save_task t ts =
     (if task_id t \<in> set (map task_id ts)
      then map (\<lambda>x. if task_id x = task_id t then t else x) ts
      else ts @ [t])"

definition set_task_position :: "oid \<Rightarrow> nat \<Rightarrow> task list \<Rightarrow> task list" where
  "set_task_position i p ts =
     map (\<lambda>t. if task_id t = i then t\<lparr>task_position := p\<rparr> else t) ts"

definition set_list_position :: "oid \<Rightarrow> nat \<Rightarrow> tlist list \<Rightarrow> tlist list" where
  "set_list_position i p ls =
     map (\<lambda>l. if list_id l = i then l\<lparr>list_position := p\<rparr> else l) ls"

definition findByIdAndDelete_task :: "oid \<Rightarrow> task list \<Rightarrow> task list" where
  "findByIdAndDelete_task i ts = filter (\<lambda>t. task_id t \<noteq> i) ts"

section \<open>Model methods\<close>

text \<open>\<^verbatim>\<open>boardSchema.methods.isMember\<close>: a listed member or the owner.\<close>

definition isMember :: "board \<Rightarrow> oid \<Rightarrow> bool" where
  "isMember b userId \<longleftrightarrow> userId \<in> set (board_members b) \<or> board_owner b = userId"

text \<open>
  \<^verbatim>\<open>boardSchema.methods.addActivity\<close>: unshift the new entry, then keep the first 50
  when the log has grown beyond 50.
\<close>

definition addActivity :: "board \<Rightarrow> oid \<Rightarrow> string \<Rightarrow> string \<Rightarrow> board" where
  "addActivity b userId action details =
     (let a = \<lparr>act_user = userId, act_action = action, act_details = details\<rparr>
                # board_activity b
      in b\<lparr>board_activity := (if length a > 50 then take 50 a else a)\<rparr>)"

text \<open>\<^verbatim>\<open>listSchema.methods.addTask\<close>: push unless already included.\<close>

definition addTask :: "tlist \<Rightarrow> oid \<Rightarrow> tlist" where
  "addTask l taskId =
     (if taskId \<in> set (list_tasks l) then l
      else l\<lparr>list_tasks := list_tasks l @ [taskId]\<rparr>)"

text \<open>\<^verbatim>\<open>listSchema.methods.removeTask\<close>: filter the id out.\<close>

definition removeTask :: "tlist \<Rightarrow> oid \<Rightarrow> tlist" where
  "removeTask l taskId = l\<lparr>list_tasks := filter (\<lambda>t. t \<noteq> taskId) (list_tasks l)\<rparr>"

text \<open>
  \<^verbatim>\<open>Array.prototype.splice(start, 0, x)\<close>: insert \<open>x\<close> before index \<open>start\<close>; a
  start beyond the length is clamped to the length, so the element is appended.
\<close>

definition splice :: "'a list \<Rightarrow> nat \<Rightarrow> 'a \<Rightarrow> 'a list" where
  "splice xs start x = take start xs @ x # drop start xs"

text \<open>
  \<^verbatim>\<open>taskSchema.statics.getNextPosition\<close>: one more than the largest position among
  the tasks whose list reference is the list, 0 when there is none.
\<close>

definition getNextPosition :: "task list \<Rightarrow> oid \<Rightarrow> nat" where
  "getNextPosition ts listId =
     (case filter (\<lambda>t. task_list t = listId) ts of
        [] \<Rightarrow> 0
      | t # r \<Rightarrow> Suc (fold max (map task_position r) (task_position t)))"

text \<open>
  \<^verbatim>\<open>listSchema.statics.findByBoard\<close> populates a list's tasks with
  \<^verbatim>\<open>options: { sort: { position: 1 } }\<close>: the documents whose id is in the array,
  in ascending position (equal positions stay in collection order).
\<close>

definition tasksByPosition :: "db \<Rightarrow> tlist \<Rightarrow> oid list" where
  "tasksByPosition st l =
     map task_id (sort_key task_position
       (filter (\<lambda>t. task_id t \<in> set (list_tasks l)) (db_tasks st)))"

section \<open>Request validation\<close>

text \<open>
  The sanitizer \<^verbatim>\<open>trim()\<close> of the validators removes white space at both ends;
  \<^verbatim>\<open>notEmpty()\<close> and \<^verbatim>\<open>isLength({ max: n })\<close> then look at the trimmed text,
  which is also what the handler reads from the body.
\<close>

definition is_space :: "char \<Rightarrow> bool" where
  "is_space c \<longleftrightarrow>
     c \<in> set [CHR '' '', CHR 0x09, CHR 0x0A, CHR 0x0B, CHR 0x0C, CHR 0x0D]"

definition trim :: "string \<Rightarrow> string" where
  "trim s = rev (dropWhile is_space (rev (dropWhile is_space s)))"

definition title_ok :: "nat \<Rightarrow> string \<Rightarrow> bool" where
  "title_ok n title \<longleftrightarrow> trim title \<noteq> [] \<and> length (trim title) \<le> n"

text \<open>The \<^verbatim>\<open>:id\<close> parameter as \<^verbatim>\<open>findById\<close> casts it.\<close>

definition cast_id :: "segment list \<Rightarrow> oid option" where
  "cast_id path = (case path of Oid i # rest \<Rightarrow> Some i | _ \<Rightarrow> None)"

section \<open>Request handlers\<close>

text \<open>
  The loops \<^verbatim>\<open>taskIds.map((taskId, index) => Task.findByIdAndUpdate(taskId,
  { position: index }))\<close> and the same over \<^verbatim>\<open>listIds\<close>. The updates are started in
  array order and awaited together; they are applied in array order here, which fixes
  the result for an id that occurs twice where the code does not.
\<close>

fun renumber_tasks :: "oid list \<Rightarrow> nat \<Rightarrow> task list \<Rightarrow> task list" where
  "renumber_tasks [] index ts = ts"
| "renumber_tasks (taskId # rest) index ts =
     renumber_tasks rest (Suc index) (set_task_position taskId index ts)"

fun renumber_lists :: "oid list \<Rightarrow> nat \<Rightarrow> tlist list \<Rightarrow> tlist list" where
  "renumber_lists [] index ls = ls"
| "renumber_lists (listId # rest) index ls =
     renumber_lists rest (Suc index) (set_list_position listId index ls)"

subsection \<open>The lists router\<close>

text \<open>
  \<^verbatim>\<open>POST /api/lists/:id/tasks\<close>: create a task at the end of a list. The title is
  required and at most 200 characters long after trimming.
\<close>

definition createTask :: "db \<Rightarrow> oid \<Rightarrow> oid \<Rightarrow> string \<Rightarrow> result" where
  "createTask st user listId title =
     (case findById_list (db_lists st) listId of
        None \<Rightarrow> (st, Inl NotFound)
      | Some l \<Rightarrow>
          (case findById_board (db_boards st) (list_board l) of
             None \<Rightarrow> (st, Inl AccessDenied)
           | Some b \<Rightarrow>
               if \<not> isMember b user then (st, Inl AccessDenied)
               else
                 let position = getNextPosition (db_tasks st) (list_id l);
                     t = \<lparr>task_id = db_next_oid st, task_title = title,
                          task_list = list_id l, task_board = list_board l,
                          task_position = position\<rparr>;
                     b' = addActivity b user ''created task''
                            (''Created task \"'' @ title @ ''\" in list \"''
                               @ list_title l @ ''\"'')
                 in (st\<lparr>db_tasks := save_task t (db_tasks st),
                         db_lists := save_list (addTask l (task_id t)) (db_lists st),
                         db_boards := save_board b' (db_boards st),
                         db_next_oid := Suc (db_next_oid st)\<rparr>,
                     Inr (list_board l, TaskCreated t (list_id l) (list_board l) user))))"

definition createTask_route :: "db \<Rightarrow> oid \<Rightarrow> segment list \<Rightarrow> body \<Rightarrow> result" where
  "createTask_route st user path body =
     (case body_title body of
        None \<Rightarrow> (st, Inl BadRequest)
      | Some title \<Rightarrow>
          if \<not> title_ok 200 title then (st, Inl BadRequest)
          else (case cast_id path of
                  None \<Rightarrow> (st, Inl ServerError)
                | Some listId \<Rightarrow> createTask st user listId (trim title)))"

text \<open>
  \<^verbatim>\<open>PUT /api/lists/:id\<close>: update title and position of a list (the colour is
  outside the data model). Both fields are optional; a title must be non-empty and at
  most 100 characters long after trimming, a position a non-negative integer.
\<close>

definition updateList :: "db \<Rightarrow> oid \<Rightarrow> oid \<Rightarrow> string option \<Rightarrow> nat option \<Rightarrow> result" where
  "updateList st user listId title position =
     (case findById_list (db_lists st) listId of
        None \<Rightarrow> (st, Inl NotFound)
      | Some l \<Rightarrow>
          (case findById_board (db_boards st) (list_board l) of
             None \<Rightarrow> (st, Inl AccessDenied)
           | Some b \<Rightarrow>
               if \<not> isMember b user then (st, Inl AccessDenied)
               else
                 let l1 = (case title of None \<Rightarrow> l | Some x \<Rightarrow> l\<lparr>list_title := x\<rparr>);
                     l2 = (case position of None \<Rightarrow> l1 | Some p \<Rightarrow> l1\<lparr>list_position := p\<rparr>);
                     bs' = (case title of
                              None \<Rightarrow> db_boards st
                            | Some x \<Rightarrow>
                                if x \<noteq> [] \<and> x \<noteq> list_title l
                                then save_board
                                       (addActivity b user ''updated list''
                                          (''Renamed list from \"'' @ list_title l
                                             @ ''\" to \"'' @ x @ ''\"''))
                                       (db_boards st)
                                else db_boards st)
                 in (st\<lparr>db_lists := save_list l2 (db_lists st), db_boards := bs'\<rparr>,
                     Inr (list_board l, ListUpdated l2 (list_board l) user))))"

definition updateList_route :: "db \<Rightarrow> oid \<Rightarrow> segment list \<Rightarrow> body \<Rightarrow> result" where
  "updateList_route st user path body =
     (if (case body_title body of None \<Rightarrow> False | Some title \<Rightarrow> \<not> title_ok 100 title)
      then (st, Inl BadRequest)
      else if (case body_position body of None \<Rightarrow> False | Some p \<Rightarrow> p < 0)
      then (st, Inl BadRequest)
      else (case cast_id path of
              None \<Rightarrow> (st, Inl ServerError)
            | Some listId \<Rightarrow>
                updateList st user listId (map_option trim (body_title body))
                  (map_option nat (body_position body))))"

text \<open>\<^verbatim>\<open>PUT /api/lists/:id/archive\<close>: toggle the archived flag of a list.\<close>

definition archiveList :: "db \<Rightarrow> oid \<Rightarrow> oid \<Rightarrow> result" where
  "archiveList st user listId =
     (case findById_list (db_lists st) listId of
        None \<Rightarrow> (st, Inl NotFound)
      | Some l \<Rightarrow>
          (case findById_board (db_boards st) (list_board l) of
             None \<Rightarrow> (st, Inl AccessDenied)
           | Some b \<Rightarrow>
               if \<not> isMember b user then (st, Inl AccessDenied)
               else
                 let l' = l\<lparr>list_isArchived := \<not> list_isArchived l\<rparr>;
                     b' = (if list_isArchived l'
                           then addActivity b user ''archived list''
                                  (''Archived list \"'' @ list_title l @ ''\"'')
                           else addActivity b user ''unarchived list''
                                  (''Unarchived list \"'' @ list_title l @ ''\"''))
                 in (st\<lparr>db_lists := save_list l' (db_lists st),
                         db_boards := save_board b' (db_boards st)\<rparr>,
                     Inr (list_board l, ListArchived l' (list_board l) user))))"

definition archiveList_route :: "db \<Rightarrow> oid \<Rightarrow> segment list \<Rightarrow> body \<Rightarrow> result" where
  "archiveList_route st user path body =
     (case cast_id path of
        None \<Rightarrow> (st, Inl ServerError)
      | Some listId \<Rightarrow> archiveList st user listId)"

text \<open>
  The handler registered for \<^verbatim>\<open>PUT /api/lists/reorder\<close>: after the membership
  check on the named board, every id of \<open>listIds\<close> gets its index as position; the
  board document is not written.
\<close>

definition reorderLists :: "db \<Rightarrow> oid \<Rightarrow> oid \<Rightarrow> oid list \<Rightarrow> result" where
  "reorderLists st user boardId listIds =
     (case findById_board (db_boards st) boardId of
        None \<Rightarrow> (st, Inl AccessDenied)
      | Some b \<Rightarrow>
          if \<not> isMember b user then (st, Inl AccessDenied)
          else (st\<lparr>db_lists := renumber_lists listIds 0 (db_lists st)\<rparr>,
                Inr (boardId, ListsReordered boardId listIds user)))"

definition reorderLists_route :: "db \<Rightarrow> oid \<Rightarrow> segment list \<Rightarrow> body \<Rightarrow> result" where
  "reorderLists_route st user path body =
     (case body_boardId body of
        None \<Rightarrow> (st, Inl BadRequest)
      | Some boardId \<Rightarrow>
          (case body_listIds body of
             None \<Rightarrow> (st, Inl BadRequest)
           | Some listIds \<Rightarrow> reorderLists st user boardId listIds))"

subsection \<open>The tasks router\<close>

text \<open>
  \<^verbatim>\<open>PUT /api/tasks/:id\<close>: update a task. Of the fields it can set only the title
  is in the data model; a title is optional, and non-empty and at most 200 characters
  long after trimming.
\<close>

definition updateTask :: "db \<Rightarrow> oid \<Rightarrow> oid \<Rightarrow> string option \<Rightarrow> result" where
  "updateTask st user taskId title =
     (case findById_task (db_tasks st) taskId of
        None \<Rightarrow> (st, Inl NotFound)
      | Some t \<Rightarrow>
          (case findById_board (db_boards st) (task_board t) of
             None \<Rightarrow> (st, Inl AccessDenied)
           | Some b \<Rightarrow>
               if \<not> isMember b user then (st, Inl AccessDenied)
               else
                 let t' = (case title of None \<Rightarrow> t | Some x \<Rightarrow> t\<lparr>task_title := x\<rparr>);
                     bs' = (case title of
                              None \<Rightarrow> db_boards st
                            | Some x \<Rightarrow>
                                if x \<noteq> [] \<and> x \<noteq> task_title t
                                then save_board
                                       (addActivity b user ''updated task''
                                          (''Updated task \"'' @ task_title t
                                             @ ''\" to \"'' @ x @ ''\"''))
                                       (db_boards st)
                                else db_boards st)
                 in (st\<lparr>db_tasks := save_task t' (db_tasks st), db_boards := bs'\<rparr>,
                     Inr (task_board t, TaskUpdated t' (task_list t) (task_board t) user))))"

definition updateTask_route :: "db \<Rightarrow> oid \<Rightarrow> segment list \<Rightarrow> body \<Rightarrow> result" where
  "updateTask_route st user path body =
     (if (case body_title body of None \<Rightarrow> False | Some title \<Rightarrow> \<not> title_ok 200 title)
      then (st, Inl BadRequest)
      else (case cast_id path of
              None \<Rightarrow> (st, Inl ServerError)
            | Some taskId \<Rightarrow> updateTask st user taskId (map_option trim (body_title body))))"

text \<open>
  \<^verbatim>\<open>DELETE /api/tasks/:id\<close>: the list named by the task's list reference drops the
  id (when that list exists), the board logs the deletion, the task document goes.
\<close>

definition deleteTask :: "db \<Rightarrow> oid \<Rightarrow> oid \<Rightarrow> result" where
  "deleteTask st user taskId =
     (case findById_task (db_tasks st) taskId of
        None \<Rightarrow> (st, Inl NotFound)
      | Some t \<Rightarrow>
          (case findById_board (db_boards st) (task_board t) of
             None \<Rightarrow> (st, Inl AccessDenied)
           | Some b \<Rightarrow>
               if \<not> isMember b user then (st, Inl AccessDenied)
               else
                 let ls' = (case findById_list (db_lists st) (task_list t) of
                              None \<Rightarrow> db_lists st
                            | Some l \<Rightarrow> save_list (removeTask l (task_id t)) (db_lists st));
                     b' = addActivity b user ''deleted task''
                            (''Deleted task \"'' @ task_title t @ ''\"'')
                 in (st\<lparr>db_lists := ls',
                         db_boards := save_board b' (db_boards st),
                         db_tasks := findByIdAndDelete_task (task_id t) (db_tasks st)\<rparr>,
                     Inr (task_board t,
                          TaskDeleted (task_id t) (task_list t) (task_board t) user))))"

definition deleteTask_route :: "db \<Rightarrow> oid \<Rightarrow> segment list \<Rightarrow> body \<Rightarrow> result" where
  "deleteTask_route st user path body =
     (case cast_id path of
        None \<Rightarrow> (st, Inl ServerError)
      | Some taskId \<Rightarrow> deleteTask st user taskId)"

text \<open>
  \<^verbatim>\<open>PUT /api/tasks/:id/move\<close>. The source and the destination list are two
  documents read before either is written. The source copy loses the task id and is
  saved. The destination copy gets the id spliced in at \<open>newPosition\<close> and is saved,
  then the task gets the destination as list reference and \<open>newPosition\<close> as
  position, and the board logs the move when the two list ids of the request differ.

  When both ids name the same list, the destination copy is a second copy of the
  document that the first save has just written. If that save changed the array (the
  task id was in it), the store refuses the save of the stale copy, the exception
  reaches the \<^verbatim>\<open>catch\<close> block and the answer is 500: the list is left without the
  task id, and neither the task nor the board is written. If the first save changed
  nothing, the second save goes through.
\<close>

definition moveTask :: "db \<Rightarrow> oid \<Rightarrow> oid \<Rightarrow> oid \<Rightarrow> oid \<Rightarrow> nat \<Rightarrow> result" where
  "moveTask st user taskId sourceListId destinationListId newPosition =
     (case findById_task (db_tasks st) taskId of
        None \<Rightarrow> (st, Inl NotFound)
      | Some t \<Rightarrow>
          (case findById_board (db_boards st) (task_board t) of
             None \<Rightarrow> (st, Inl AccessDenied)
           | Some b \<Rightarrow>
               if \<not> isMember b user then (st, Inl AccessDenied)
               else
                 (case findById_list (db_lists st) sourceListId of
                    None \<Rightarrow> (st, Inl NotFound)
                  | Some sourceList \<Rightarrow>
                      (case findById_list (db_lists st) destinationListId of
                         None \<Rightarrow> (st, Inl NotFound)
                       | Some destinationList \<Rightarrow>
                           let ls1 = save_list (removeTask sourceList (task_id t)) (db_lists st)
                           in if sourceListId = destinationListId
                                 \<and> list_tasks (removeTask sourceList (task_id t))
                                     \<noteq> list_tasks sourceList
                              then (st\<lparr>db_lists := ls1\<rparr>, Inl ServerError)
                              else
                                let ls2 = save_list
                                            (destinationList\<lparr>list_tasks :=
                                               splice (list_tasks destinationList) newPosition
                                                 (task_id t)\<rparr>) ls1;
                                    t' = t\<lparr>task_list := destinationListId,
                                           task_position := newPosition\<rparr>;
                                    bs' = (if sourceListId \<noteq> destinationListId
                                           then save_board
                                                  (addActivity b user ''moved task''
                                                     (''Moved task \"'' @ task_title t
                                                        @ ''\" from \"''
                                                        @ list_title sourceList
                                                        @ ''\" to \"''
                                                        @ list_title destinationList
                                                        @ ''\"''))
                                                  (db_boards st)
                                           else db_boards st)
                                in (st\<lparr>db_lists := ls2,
                                        db_tasks := save_task t' (db_tasks st),
                                        db_boards := bs'\<rparr>,
                                    Inr (task_board t,
                                         TaskMoved (task_id t) sourceListId destinationListId
                                           newPosition (task_board t) user))))))"

definition moveTask_route :: "db \<Rightarrow> oid \<Rightarrow> segment list \<Rightarrow> body \<Rightarrow> result" where
  "moveTask_route st user path body =
     (case body_sourceListId body of
        None \<Rightarrow> (st, Inl BadRequest)
      | Some sourceListId \<Rightarrow>
          (case body_destinationListId body of
             None \<Rightarrow> (st, Inl BadRequest)
           | Some destinationListId \<Rightarrow>
               (case body_newPosition body of
                  None \<Rightarrow> (st, Inl BadRequest)
                | Some newPosition \<Rightarrow>
                    (case cast_id path of
                       None \<Rightarrow> (st, Inl ServerError)
                     | Some taskId \<Rightarrow>
                         moveTask st user taskId sourceListId destinationListId
                           newPosition))))"

text \<open>
  The handler registered for \<^verbatim>\<open>PUT /api/tasks/reorder\<close>. The validation query
  \<^verbatim>\<open>Task.find({ _id: { $in: taskIds }, list: listId })\<close> returns each stored task
  whose id is among \<open>taskIds\<close> and whose list reference is \<open>listId\<close>; the request is
  refused with status 400 unless there are exactly as many as ids supplied.
\<close>

definition reorderTasks :: "db \<Rightarrow> oid \<Rightarrow> oid \<Rightarrow> oid list \<Rightarrow> result" where
  "reorderTasks st user listId taskIds =
     (case findById_list (db_lists st) listId of
        None \<Rightarrow> (st, Inl NotFound)
      | Some l \<Rightarrow>
          (case findById_board (db_boards st) (list_board l) of
             None \<Rightarrow> (st, Inl AccessDenied)
           | Some b \<Rightarrow>
               if \<not> isMember b user then (st, Inl AccessDenied)
               else
                 let found = filter (\<lambda>t. task_id t \<in> set taskIds \<and> task_list t = listId)
                               (db_tasks st)
                 in if length found \<noteq> length taskIds then (st, Inl BadRequest)
                    else
                      (st\<lparr>db_tasks := renumber_tasks taskIds 0 (db_tasks st),
                          db_lists := save_list (l\<lparr>list_tasks := taskIds\<rparr>) (db_lists st)\<rparr>,
                       Inr (list_board l,
                            TasksReordered listId taskIds (list_board l) user))))"

definition reorderTasks_route :: "db \<Rightarrow> oid \<Rightarrow> segment list \<Rightarrow> body \<Rightarrow> result" where
  "reorderTasks_route st user path body =
     (case body_listId body of
        None \<Rightarrow> (st, Inl BadRequest)
      | Some listId \<Rightarrow>
          (case body_taskIds body of
             None \<Rightarrow> (st, Inl BadRequest)
           | Some taskIds \<Rightarrow> reorderTasks st user listId taskIds))"

section \<open>Routing\<close>

text \<open>
  A router tries its routes in the order of their registration and hands the request
  to the first one whose pattern matches the path: \<^verbatim>\<open>:id\<close> matches any one
  segment, a word matches itself. Every handler above answers, so no later route is
  tried. A request that no route matches gets the 404 answer of
  \<^verbatim>\<open>server/index.js\<close>.
\<close>

datatype pat = Param | Lit string

fun matches :: "pat list \<Rightarrow> segment list \<Rightarrow> bool" where
  "matches [] [] = True"
| "matches (Param # ps) (s # ss) = matches ps ss"
| "matches (Lit w # ps) (s # ss) = (s = Word w \<and> matches ps ss)"
| "matches ps ss = False"

type_synonym handler = "db \<Rightarrow> oid \<Rightarrow> segment list \<Rightarrow> body \<Rightarrow> result"

fun dispatch :: "(pat list \<times> handler) list \<Rightarrow> handler" where
  "dispatch [] st user path body = (st, Inl NotFound)"
| "dispatch (r # rs) st user path body =
     (if matches (fst r) path then snd r st user path body
      else dispatch rs st user path body)"

text \<open>
  The \<^verbatim>\<open>PUT\<close> routes of \<^verbatim>\<open>server/routes/tasks.js\<close> in the order of the file:
  \<^verbatim>\<open>/:id\<close>, \<^verbatim>\<open>/:id/move\<close>, \<^verbatim>\<open>/reorder\<close>.
\<close>

definition tasks_put_routes :: "(pat list \<times> handler) list" where
  "tasks_put_routes =
     [([Param], updateTask_route),
      ([Param, Lit ''move''], moveTask_route),
      ([Lit ''reorder''], reorderTasks_route)]"

definition tasks_put :: handler where
  "tasks_put = dispatch tasks_put_routes"

text \<open>
  The \<^verbatim>\<open>PUT\<close> routes of the lists router (\<^verbatim>\<open>./routes/lists\<close> in
  \<^verbatim>\<open>server/index.js\<close>) in the order of the file: \<^verbatim>\<open>/:id\<close>,
  \<^verbatim>\<open>/:id/archive\<close>, \<^verbatim>\<open>/reorder\<close>.
\<close>

definition lists_put_routes :: "(pat list \<times> handler) list" where
  "lists_put_routes =
     [([Param], updateList_route),
      ([Param, Lit ''archive''], archiveList_route),
      ([Lit ''reorder''], reorderLists_route)]"

definition lists_put :: handler where
  "lists_put = dispatch lists_put_routes"

text \<open>
  The requests of the model (user first when handled). \<open>CreateTask s b\<close> is
  \<^verbatim>\<open>POST /api/lists/s/tasks\<close> and \<open>DeleteTask s\<close> is \<^verbatim>\<open>DELETE /api/tasks/s\<close>;
  no earlier route of their routers matches a path of these shapes. \<open>PutTasks p b\<close>
  and \<open>PutLists p b\<close> are \<^verbatim>\<open>PUT\<close> requests below \<^verbatim>\<open>/api/tasks\<close> and
  \<^verbatim>\<open>/api/lists\<close>.
\<close>

datatype request =
    CreateTask segment body
  | DeleteTask segment
  | PutTasks "segment list" body
  | PutLists "segment list" body

definition no_body :: body where
  "no_body = \<lparr>body_title = None, body_position = None, body_sourceListId = None,
              body_destinationListId = None, body_newPosition = None, body_listId = None,
              body_taskIds = None, body_boardId = None, body_listIds = None\<rparr>"

fun handle :: "db \<Rightarrow> oid \<Rightarrow> request \<Rightarrow> result" where
  "handle st user (CreateTask s body) = createTask_route st user [s, Word ''tasks''] body"
| "handle st user (DeleteTask s) = deleteTask_route st user [s] no_body"
| "handle st user (PutTasks path body) = tasks_put st user path body"
| "handle st user (PutLists path body) = lists_put st user path body"

text \<open>The requests a client sends for the four task operations and for a list reorder.\<close>

definition create_task :: "oid \<Rightarrow> string \<Rightarrow> request" where
  "create_task listId title = CreateTask (Oid listId) (no_body\<lparr>body_title := Some title\<rparr>)"

definition delete_task :: "oid \<Rightarrow> request" where
  "delete_task taskId = DeleteTask (Oid taskId)"

definition move_task :: "oid \<Rightarrow> oid \<Rightarrow> oid \<Rightarrow> nat \<Rightarrow> request" where
  "move_task taskId sourceListId destinationListId newPosition =
     PutTasks [Oid taskId, Word ''move'']
       (no_body\<lparr>body_sourceListId := Some sourceListId,
                body_destinationListId := Some destinationListId,
                body_newPosition := Some newPosition\<rparr>)"

definition reorder_tasks :: "oid \<Rightarrow> oid list \<Rightarrow> request" where
  "reorder_tasks listId taskIds =
     PutTasks [Word ''reorder''] (no_body\<lparr>body_listId := Some listId, body_taskIds := Some taskIds\<rparr>)"

definition reorder_lists :: "oid \<Rightarrow> oid list \<Rightarrow> request" where
  "reorder_lists boardId listIds =
     PutLists [Word ''reorder'']
       (no_body\<lparr>body_boardId := Some boardId, body_listIds := Some listIds\<rparr>)"

text \<open>A sequence of requests, each with its user, handled one after the other.\<close>

definition run :: "db \<Rightarrow> (oid \<times> request) list \<Rightarrow> db" where
  "run st reqs = foldl (\<lambda>s ur. fst (handle s (fst ur) (snd ur))) st reqs"

section \<open>Broadcast rooms\<close>

text \<open>
  \<^verbatim>\<open>server/index.js\<close>: a connected socket joins and leaves the room named by a
  board id. \<open>rooms\<close> gives the sockets of each room. The middleware sets
  \<^verbatim>\<open>req.io = io\<close>, the server itself, so a handler's
  \<^verbatim>\<open>req.io.to(room).emit(...)\<close> reaches every socket of the room; the relay
  handlers of the socket connection use \<^verbatim>\<open>socket.to(room).emit(...)\<close> instead,
  which leaves the sending socket out.
\<close>

type_synonym session = nat

type_synonym rooms = "oid \<Rightarrow> session list"

definition no_rooms :: rooms where
  "no_rooms room = []"

definition join_board :: "rooms \<Rightarrow> session \<Rightarrow> oid \<Rightarrow> rooms" where
  "join_board r s boardId =
     r(boardId := (if s \<in> set (r boardId) then r boardId else r boardId @ [s]))"

definition leave_board :: "rooms \<Rightarrow> session \<Rightarrow> oid \<Rightarrow> rooms" where
  "leave_board r s boardId = r(boardId := removeAll s (r boardId))"

definition io_to_emit :: "rooms \<Rightarrow> emission \<Rightarrow> (session \<times> event) list" where
  "io_to_emit r em = map (\<lambda>s. (s, snd em)) (r (fst em))"

definition socket_to_emit :: "rooms \<Rightarrow> session \<Rightarrow> emission \<Rightarrow> (session \<times> event) list" where
  "socket_to_emit r sender em =
     map (\<lambda>s. (s, snd em)) (filter (\<lambda>s. s \<noteq> sender) (r (fst em)))"

text \<open>What the answer of a handler delivers: nothing on an error answer.\<close>

definition delivered :: "rooms \<Rightarrow> result \<Rightarrow> (session \<times> event) list" where
  "delivered r res = (case snd res of Inl e \<Rightarrow> [] | Inr em \<Rightarrow> io_to_emit r em)"

definition emitted :: "result \<Rightarrow> emission option" where
  "emitted res = (case snd res of Inl e \<Rightarrow> None | Inr em \<Rightarrow> Some em)"

section \<open>Readings of a database state\<close>

definition tasks_of :: "db \<Rightarrow> oid \<Rightarrow> oid list option" where
  "tasks_of st listId = map_option list_tasks (findById_list (db_lists st) listId)"

definition position_of :: "db \<Rightarrow> oid \<Rightarrow> nat option" where
  "position_of st taskId = map_option task_position (findById_task (db_tasks st) taskId)"

definition list_of :: "db \<Rightarrow> oid \<Rightarrow> oid option" where
  "list_of st taskId = map_option task_list (findById_task (db_tasks st) taskId)"

definition activity_of :: "db \<Rightarrow> oid \<Rightarrow> activity_entry list option" where
  "activity_of st boardId = map_option board_activity (findById_board (db_boards st) boardId)"

definition list_positions :: "db \<Rightarrow> oid list \<Rightarrow> nat option list" where
  "list_positions st listIds =
     map (\<lambda>i. map_option list_position (findById_list (db_lists st) i)) listIds"

definition lists_containing :: "db \<Rightarrow> oid \<Rightarrow> oid list" where
  "lists_containing st taskId =
     map list_id (filter (\<lambda>l. taskId \<in> set (list_tasks l)) (db_lists st))"

section \<open>Example boards\<close>

text \<open>
  Board 1 (owner: user 100, member: user 101) with the empty lists 2 ``Todo'',
  3 ``Doing'' and 4 ``Done''; board 5 (owner: user 200) with the empty list 6
  ``Elsewhere''. Fresh task ids start at 10.
\<close>

definition db0 :: db where
  "db0 =
     \<lparr>db_boards =
        [\<lparr>board_id = 1, board_title = ''Sprint'', board_owner = 100, board_members = [101],
          board_lists = [2, 3, 4], board_activity = []\<rparr>,
         \<lparr>board_id = 5, board_title = ''Other'', board_owner = 200, board_members = [],
          board_lists = [6], board_activity = []\<rparr>],
      db_lists =
        [\<lparr>list_id = 2, list_title = ''Todo'', list_board = 1, list_tasks = [],
          list_position = 0, list_isArchived = False\<rparr>,
         \<lparr>list_id = 3, list_title = ''Doing'', list_board = 1, list_tasks = [],
          list_position = 1, list_isArchived = False\<rparr>,
         \<lparr>list_id = 4, list_title = ''Done'', list_board = 1, list_tasks = [],
          list_position = 2, list_isArchived = False\<rparr>,
         \<lparr>list_id = 6, list_title = ''Elsewhere'', list_board = 5, list_tasks = [],
          list_position = 0, list_isArchived = False\<rparr>],
      db_tasks = [],
      db_next_oid = 10\<rparr>"

text \<open>Todo = [A, B] (tasks 10, 11) and Doing = [C] (task 12).\<close>

definition todo_doing :: db where
  "todo_doing =
     run db0 [(100, create_task 2 ''A''), (100, create_task 2 ''B''),
              (100, create_task 3 ''C'')]"

text \<open>Todo = [X, Y, Z] (tasks 10, 11, 12), positions 0, 1, 2.\<close>

definition backlog :: db where
  "backlog =
     run db0 [(100, create_task 2 ''X''), (100, create_task 2 ''Y''),
              (100, create_task 2 ''Z'')]"

text \<open>
  B, C and D (tasks 10, 11, 12) are created in Todo; C and D are then moved to Doing,
  C first for Doing = [C, D], D first for Doing = [D, C]. Todo = [B] in both.
\<close>

definition doing_cd :: db where
  "doing_cd =
     run db0 [(100, create_task 2 ''B''), (100, create_task 2 ''C''),
              (100, create_task 2 ''D''), (100, move_task 11 2 3 0),
              (100, move_task 12 2 3 1)]"

definition doing_dc :: db where
  "doing_dc =
     run db0 [(100, create_task 2 ''B''), (100, create_task 2 ''C''),
              (100, create_task 2 ''D''), (100, move_task 12 2 3 0),
              (100, move_task 11 2 3 1)]"

text \<open>Task A (task 10) in Todo, the only task.\<close>

definition single_task :: db where
  "single_task = run db0 [(100, create_task 2 ''A'')]"

text \<open>
  Doing gets D and E (tasks 10, 11), Todo gets X and Y (tasks 12, 13); then X is moved
  from Todo to index 0 of Doing and Y from Todo to index 2 of Doing.
\<close>

definition drifted :: db where
  "drifted =
     run db0 [(100, create_task 3 ''D''), (100, create_task 3 ''E''),
              (100, create_task 2 ''X''), (100, create_task 2 ''Y''),
              (100, move_task 12 2 3 0), (100, move_task 13 2 3 2)]"

text \<open>
  Task A (task 10) is created in Todo and then moved by a request that names Doing as
  its source list and Done as its destination.
\<close>

definition misfiled :: db where
  "misfiled = run db0 [(100, create_task 2 ''A''), (100, move_task 10 3 4 0)]"

text \<open>Sessions 7 and 8 have joined the room of board 1.\<close>

definition two_sessions :: rooms where
  "two_sessions = join_board (join_board no_rooms 7 1) 8 1"

section \<open>Properties of the persistence primitives\<close>

subsection \<open>Lookups after a write\<close>

lemma find_replace:
  "find (\<lambda>x. k x = i) (map (\<lambda>x. if k x = k y then y else x) xs) =
     (if i = k y then (if k y \<in> set (map k xs) then Some y else None)
      else find (\<lambda>x. k x = i) xs)"
  by (induction xs) auto

lemma find_append_new:
  "k y \<notin> set (map k xs) \<Longrightarrow>
   find (\<lambda>x. k x = i) (xs @ [y]) = (if i = k y then Some y else find (\<lambda>x. k x = i) xs)"
  by (induction xs) auto

lemma find_save:
  "find (\<lambda>x. k x = i)
     (if k y \<in> set (map k xs) then map (\<lambda>x. if k x = k y then y else x) xs else xs @ [y]) =
   (if i = k y then Some y else find (\<lambda>x. k x = i) xs)"
proof (cases "k y \<in> set (map k xs)")
  case True
  then show ?thesis using find_replace [of k i y xs] by simp
next
  case False
  then show ?thesis using find_append_new [of k y xs i] by simp
qed

lemma findById_list_save:
  "findById_list (save_list x ls) i = (if i = list_id x then Some x else findById_list ls i)"
  unfolding findById_list_def save_list_def by (rule find_save)

lemma findById_task_save:
  "findById_task (save_task x ts) i = (if i = task_id x then Some x else findById_task ts i)"
  unfolding findById_task_def save_task_def by (rule find_save)

lemma findById_board_save:
  "findById_board (save_board x bs) i =
     (if i = board_id x then Some (board_pre_save x) else findById_board bs i)"
proof -
  have "board_id (board_pre_save x) = board_id x" by (simp add: board_pre_save_def)
  then show ?thesis
    unfolding findById_board_def save_board_def Let_def
    using find_save [of board_id i "board_pre_save x" bs] by simp
qed

lemma findById_list_id: "findById_list ls i = Some l \<Longrightarrow> list_id l = i"
  unfolding findById_list_def by (auto simp: find_Some_iff)

lemma findById_task_id: "findById_task ts i = Some t \<Longrightarrow> task_id t = i"
  unfolding findById_task_def by (auto simp: find_Some_iff)

lemma findById_board_id: "findById_board bs i = Some b \<Longrightarrow> board_id b = i"
  unfolding findById_board_def by (auto simp: find_Some_iff)

section \<open>Properties of the routers\<close>

text \<open>
  Every path that the pattern \<^verbatim>\<open>/reorder\<close> matches is a single segment, which the
  pattern \<^verbatim>\<open>/:id\<close>, registered first in both routers, matches too. So the two
  reorder handlers are never called: each router answers as if its reorder route were
  not there.
\<close>

lemma reorder_pattern_shadowed:
  assumes "matches [Lit w] path"
  shows "matches [Param] path"
proof (cases path)
  case Nil
  with assms show ?thesis by simp
next
  case (Cons s ss)
  with assms show ?thesis by (cases ss) simp_all
qed

lemma tasks_put_without_reorder:
  "tasks_put st user path body =
     dispatch [([Param], updateTask_route), ([Param, Lit ''move''], moveTask_route)]
       st user path body"
  using reorder_pattern_shadowed [of "''reorder''" path]
  by (auto simp: tasks_put_def tasks_put_routes_def)

lemma lists_put_without_reorder:
  "lists_put st user path body =
     dispatch [([Param], updateList_route), ([Param, Lit ''archive''], archiveList_route)]
       st user path body"
  using reorder_pattern_shadowed [of "''reorder''" path]
  by (auto simp: lists_put_def lists_put_routes_def)

text \<open>
  A reorder request is handled by the update handler, which answers 400 or 500 (the
  word \<^verbatim>\<open>reorder\<close> is no object id) and writes nothing.
\<close>

lemma tasks_put_reorder:
  "tasks_put st user [Word ''reorder''] body =
     (st, Inl (if (case body_title body of None \<Rightarrow> False | Some title \<Rightarrow> \<not> title_ok 200 title)
               then BadRequest else ServerError))"
  by (simp add: tasks_put_def tasks_put_routes_def updateTask_route_def cast_id_def)

lemma lists_put_reorder:
  "lists_put st user [Word ''reorder''] body =
     (st, Inl (if (case body_title body of None \<Rightarrow> False | Some title \<Rightarrow> \<not> title_ok 100 title)
                  \<or> (case body_position body of None \<Rightarrow> False | Some p \<Rightarrow> p < 0)
               then BadRequest else ServerError))"
  by (simp add: lists_put_def lists_put_routes_def updateList_route_def cast_id_def)

text \<open>A well-formed move request reaches the move handler.\<close>

lemma handle_move_task:
  "handle st user (move_task taskId src dst pos) = moveTask st user taskId src dst pos"
  by (simp add: move_task_def no_body_def tasks_put_def tasks_put_routes_def
        moveTask_route_def cast_id_def)

section \<open>Properties of the handlers\<close>

lemma addActivity_log:
  "board_activity (addActivity b u a d) =
     take 50 (\<lparr>act_user = u, act_action = a, act_details = d\<rparr> # board_activity b)"
  unfolding addActivity_def by (simp add: Let_def)

lemma addActivity_id: "board_id (addActivity b u a d) = board_id b"
  unfolding addActivity_def by (simp add: Let_def)

lemma removeTask_unchanged:
  "list_tasks (removeTask l taskId) = list_tasks l \<longleftrightarrow> taskId \<notin> set (list_tasks l)"
  unfolding removeTask_def by (auto simp: filter_id_conv)

lemma moveTask_success:
  assumes t: "findById_task (db_tasks st) taskId = Some t"
      and b: "findById_board (db_boards st) (task_board t) = Some b"
      and m: "isMember b user"
      and sl: "findById_list (db_lists st) src = Some sl"
      and dl: "findById_list (db_lists st) dst = Some dl"
      and c: "src \<noteq> dst \<or> taskId \<notin> set (list_tasks sl)"
  shows "moveTask st user taskId src dst pos =
     (st\<lparr>db_lists :=
           save_list (dl\<lparr>list_tasks := splice (list_tasks dl) pos taskId\<rparr>)
             (save_list (removeTask sl taskId) (db_lists st)),
         db_tasks := save_task (t\<lparr>task_list := dst, task_position := pos\<rparr>) (db_tasks st),
         db_boards :=
           (if src \<noteq> dst
            then save_board
                   (addActivity b user ''moved task''
                      (''Moved task \"'' @ task_title t @ ''\" from \"'' @ list_title sl
                         @ ''\" to \"'' @ list_title dl @ ''\"''))
                   (db_boards st)
            else db_boards st)\<rparr>,
      Inr (task_board t, TaskMoved taskId src dst pos (task_board t) user))"
proof -
  have id: "task_id t = taskId" using t by (rule findById_task_id)
  have "\<not> (src = dst \<and> list_tasks (removeTask sl taskId) \<noteq> list_tasks sl)"
    using c by (simp add: removeTask_unchanged)
  then show ?thesis
    using t b m sl dl id unfolding moveTask_def by (simp add: Let_def)
qed

lemma moveTask_InrD:
  assumes "moveTask st user taskId src dst pos = (st', Inr em)"
  obtains t b sl dl where "findById_task (db_tasks st) taskId = Some t"
    and "findById_board (db_boards st) (task_board t) = Some b"
    and "isMember b user"
    and "findById_list (db_lists st) src = Some sl"
    and "findById_list (db_lists st) dst = Some dl"
    and "src \<noteq> dst \<or> taskId \<notin> set (list_tasks sl)"
proof -
  from assms obtain t b sl dl where l: "findById_task (db_tasks st) taskId = Some t"
    "findById_board (db_boards st) (task_board t) = Some b" "isMember b user"
    "findById_list (db_lists st) src = Some sl" "findById_list (db_lists st) dst = Some dl"
    and c: "\<not> (src = dst \<and> list_tasks (removeTask sl (task_id t)) \<noteq> list_tasks sl)"
    unfolding moveTask_def
    by (auto simp: Let_def split: option.splits if_splits)
  have "task_id t = taskId" using l(1) by (rule findById_task_id)
  with c have "src \<noteq> dst \<or> taskId \<notin> set (list_tasks sl)"
    by (simp add: removeTask_unchanged)
  with l show ?thesis by (rule that)
qed

lemma moveTask_emission:
  assumes ok: "moveTask st user taskId src dst pos = (st', Inr em)"
      and t: "findById_task (db_tasks st) taskId = Some t"
  shows "em = (task_board t, TaskMoved taskId src dst pos (task_board t) user)"
proof -
  from ok obtain t' b sl dl where l: "findById_task (db_tasks st) taskId = Some t'"
    "findById_board (db_boards st) (task_board t') = Some b" "isMember b user"
    "findById_list (db_lists st) src = Some sl" "findById_list (db_lists st) dst = Some dl"
    "src \<noteq> dst \<or> taskId \<notin> set (list_tasks sl)"
    by (rule moveTask_InrD)
  have "t' = t" using l(1) t by simp
  then show ?thesis using ok moveTask_success [OF l, of pos] by simp
qed

lemma moveTask_effect:
  assumes t: "findById_task (db_tasks st) taskId = Some t"
      and b: "findById_board (db_boards st) (task_board t) = Some b"
      and m: "isMember b user"
      and sl: "findById_list (db_lists st) src = Some sl"
      and dl: "findById_list (db_lists st) dst = Some dl"
      and ne: "src \<noteq> dst"
  shows "\<exists>st' em. moveTask st user taskId src dst pos = (st', Inr em) \<and>
           findById_list (db_lists st') src = Some (removeTask sl taskId) \<and>
           findById_list (db_lists st') dst
             = Some (dl\<lparr>list_tasks := splice (list_tasks dl) pos taskId\<rparr>) \<and>
           (\<forall>i. findById_task (db_tasks st') i =
                  (if i = taskId then Some (t\<lparr>task_list := dst, task_position := pos\<rparr>)
                   else findById_task (db_tasks st) i))"
proof -
  have ids: "task_id t = taskId" "list_id sl = src" "list_id dl = dst"
    using t sl dl by (simp_all add: findById_task_id findById_list_id)
  have rid: "list_id (removeTask sl taskId) = src"
    using ids by (simp add: removeTask_def)
  have c: "src \<noteq> dst \<or> taskId \<notin> set (list_tasks sl)" using ne by simp
  show ?thesis
    using moveTask_success [OF t b m sl dl c, of pos] ids rid ne
    by (simp add: findById_list_save findById_task_save)
qed

text \<open>A move request whose two list ids are equal writes no board, whatever its answer.\<close>

lemma moveTask_same_list_boards:
  "db_boards (fst (moveTask st user taskId l l pos)) = db_boards st"
  unfolding moveTask_def by (simp add: Let_def split: option.splits)

section \<open>Moving a task with a wrong source list\<close>

text \<open>
  Claim C1 asks that a move request whose source list is not the list the task
  belongs to be refused with the lists and the task left as they were. The route does
  not compare the task's list reference with \<open>sourceListId\<close> (the reorder handler
  does check \<^verbatim>\<open>list: listId\<close> for its tasks). Evaluated on Todo = [A, B],
  Doing = [C], Done = []: task B (11, in Todo at position 1) is moved by a request
  naming Doing (3) as source and Done (4) as destination. The request reaches the move
  handler, succeeds and emits \<open>TaskMoved\<close>; Done becomes [B], Todo still holds B, and
  B's list reference and position become Done and 0.
\<close>

theorem moveTask_wrong_source_accepted:
  "list_of todo_doing 11 = Some 2 \<and> position_of todo_doing 11 = Some 1 \<and>
   tasks_of todo_doing 2 = Some [10, 11] \<and> tasks_of todo_doing 4 = Some [] \<and>
   handle todo_doing 100 (move_task 11 3 4 0) = moveTask todo_doing 100 11 3 4 0 \<and>
   emitted (moveTask todo_doing 100 11 3 4 0) = Some (1, TaskMoved 11 3 4 0 1 100) \<and>
   tasks_of (fst (moveTask todo_doing 100 11 3 4 0)) 2 = Some [10, 11] \<and>
   tasks_of (fst (moveTask todo_doing 100 11 3 4 0)) 4 = Some [11] \<and>
   list_of (fst (moveTask todo_doing 100 11 3 4 0)) 11 = Some 4 \<and>
   position_of (fst (moveTask todo_doing 100 11 3 4 0)) 11 = Some 0"
  by code_simp

section \<open>Moving a task into a list of another board\<close>

text \<open>
  Claim C2 asks that a move whose destination list belongs to another board than its
  source list be refused with nothing written. The move route checks the membership of
  the caller in the task's board only, and compares no boards; every other handler
  that writes a list checks membership in the board of that list. Evaluated on task A
  (10) of board 1, in Todo (list 2 of board 1): user 100, owner of board 1 and no
  member of board 5, moves A from Todo to Elsewhere (list 6 of board 5). The request
  is not refused and emits \<open>TaskMoved\<close>; Todo becomes empty, Elsewhere becomes [A],
  and A's list reference is Elsewhere while its board reference is still board 1.
\<close>

theorem cross_board_move_accepted:
  "map_option list_board (findById_list (db_lists single_task) 2) = Some 1 \<and>
   map_option list_board (findById_list (db_lists single_task) 6) = Some 5 \<and>
   map_option (\<lambda>b. isMember b 100) (findById_board (db_boards single_task) 5) = Some False \<and>
   list_of single_task 10 = Some 2 \<and>
   tasks_of single_task 2 = Some [10] \<and> tasks_of single_task 6 = Some [] \<and>
   handle single_task 100 (move_task 10 2 6 0) = moveTask single_task 100 10 2 6 0 \<and>
   snd (moveTask single_task 100 10 2 6 0) \<noteq> Inl BadRequest \<and>
   emitted (moveTask single_task 100 10 2 6 0) = Some (1, TaskMoved 10 2 6 0 1 100) \<and>
   tasks_of (fst (moveTask single_task 100 10 2 6 0)) 2 = Some [] \<and>
   tasks_of (fst (moveTask single_task 100 10 2 6 0)) 6 = Some [10] \<and>
   list_of (fst (moveTask single_task 100 10 2 6 0)) 10 = Some 6 \<and>
   map_option task_board (findById_task (db_tasks (fst (moveTask single_task 100 10 2 6 0))) 10)
     = Some 1"
  by code_simp

section \<open>Position order against the stored array\<close>

text \<open>
  Claim C3 asks that, in every reachable state, a list's tasks sorted by ascending
  position be its stored array. The move route writes \<open>newPosition\<close> into the moved
  task and leaves the positions of the destination's other tasks as they are (the
  reorder handler renumbers all of them). Evaluated on the state reached from the empty
  board by four creations and two cross-list moves, each naming the task's real source
  list and an index inside the destination: Doing's stored array is [X, D, Y, E]
  (12, 10, 13, 11) with positions 0, 0, 2, 1, and the tasks of the array sorted by
  position are [D, X, E, Y].
\<close>

theorem moves_break_position_order:
  "tasks_of drifted 3 = Some [12, 10, 13, 11] \<and>
   map (position_of drifted) [12, 10, 13, 11] = [Some 0, Some 0, Some 2, Some 1] \<and>
   map_option (tasksByPosition drifted) (findById_list (db_lists drifted) 3)
     = Some [10, 12, 11, 13]"
  by code_simp

section \<open>Cross-list move\<close>

text \<open>
  Claim C4, as the code has it. After a successful move between two different lists
  the source array is the former one without the task id, and the tasks that remain in
  it keep the positions they had (they are not renumbered); the destination array is
  the former one with the task id inserted at the destination index; the moved task's
  position is the destination index and its list reference is the destination list.
\<close>

theorem moveTask_cross_list:
  assumes ok: "moveTask st user taskId src dst pos = (st', Inr em)"
      and ne: "src \<noteq> dst"
      and sl: "findById_list (db_lists st) src = Some sl"
      and dl: "findById_list (db_lists st) dst = Some dl"
  shows "tasks_of st' src = Some (filter (\<lambda>i. i \<noteq> taskId) (list_tasks sl)) \<and>
         tasks_of st' dst = Some (splice (list_tasks dl) pos taskId) \<and>
         list_of st' taskId = Some dst \<and> position_of st' taskId = Some pos \<and>
         (\<forall>i\<in>set (filter (\<lambda>i. i \<noteq> taskId) (list_tasks sl)).
            position_of st' i = position_of st i)"
proof -
  from ok obtain t b where l: "findById_task (db_tasks st) taskId = Some t"
    "findById_board (db_boards st) (task_board t) = Some b" "isMember b user"
    by (rule moveTask_InrD)
  from moveTask_effect [OF l sl dl ne, of pos] ok
  have e: "findById_list (db_lists st') src = Some (removeTask sl taskId)"
    "findById_list (db_lists st') dst
       = Some (dl\<lparr>list_tasks := splice (list_tasks dl) pos taskId\<rparr>)"
    "\<And>i. findById_task (db_tasks st') i =
            (if i = taskId then Some (t\<lparr>task_list := dst, task_position := pos\<rparr>)
             else findById_task (db_tasks st) i)"
    by auto
  show ?thesis
    by (simp add: e tasks_of_def list_of_def position_of_def removeTask_def)
qed

text \<open>
  The scenario of the claim: Todo = [A, B], Doing = [C], B moved to index 0 of Doing.
  Todo becomes [A] with A at position 0, Doing becomes [B, C] with B at position 0
  and B's list reference is Doing.
\<close>

theorem moveTask_cross_list_witness:
  "moveTask todo_doing 100 11 2 3 0 =
     (fst (moveTask todo_doing 100 11 2 3 0), Inr (1, TaskMoved 11 2 3 0 1 100)) \<and>
   (2::oid) \<noteq> 3 \<and>
   tasks_of todo_doing 2 = Some [10, 11] \<and> tasks_of todo_doing 3 = Some [12] \<and>
   tasks_of (fst (moveTask todo_doing 100 11 2 3 0)) 2 = Some [10] \<and>
   position_of (fst (moveTask todo_doing 100 11 2 3 0)) 10 = Some 0 \<and>
   tasks_of (fst (moveTask todo_doing 100 11 2 3 0)) 3 = Some [11, 12] \<and>
   position_of (fst (moveTask todo_doing 100 11 2 3 0)) 11 = Some 0 \<and>
   list_of (fst (moveTask todo_doing 100 11 2 3 0)) 11 = Some 3"
proof -
  let ?st' = "fst (moveTask todo_doing 100 11 2 3 0)"
  let ?sl = "\<lparr>list_id = 2, list_title = ''Todo'', list_board = 1, list_tasks = [10, 11],
              list_position = 0, list_isArchived = False\<rparr>"
  let ?dl = "\<lparr>list_id = 3, list_title = ''Doing'', list_board = 1, list_tasks = [12],
              list_position = 1, list_isArchived = False\<rparr>"
  have ok: "moveTask todo_doing 100 11 2 3 0 = (?st', Inr (1, TaskMoved 11 2 3 0 1 100))"
    by code_simp
  have ne: "(2::oid) \<noteq> 3" by simp
  have sl: "findById_list (db_lists todo_doing) 2 = Some ?sl" by code_simp
  have dl: "findById_list (db_lists todo_doing) 3 = Some ?dl" by code_simp
  have p: "position_of todo_doing 10 = Some 0" by code_simp
  have before: "tasks_of todo_doing 2 = Some [10, 11]" "tasks_of todo_doing 3 = Some [12]"
    by (simp_all add: tasks_of_def sl dl)
  from moveTask_cross_list [OF ok ne sl dl] p
  have "tasks_of ?st' 2 = Some [10] \<and> position_of ?st' 10 = Some 0 \<and>
        tasks_of ?st' 3 = Some [11, 12] \<and> position_of ?st' 11 = Some 0 \<and>
        list_of ?st' 11 = Some 3"
    by (simp add: splice_def)
  with ok ne before show ?thesis by blast
qed

text \<open>
  Claim C4 as stated fails on its own scenario: after B is moved to index 0 of
  Doing = [C], the positions along Doing = [B, C] are 0 and 0, not 0 and 1. It fails on
  the source side when the first task leaves: after A is moved instead, Todo = [B] and
  B keeps position 1.
\<close>

theorem cross_list_move_positions:
  "tasks_of todo_doing 2 = Some [10, 11] \<and> tasks_of todo_doing 3 = Some [12] \<and>
   tasks_of (fst (moveTask todo_doing 100 11 2 3 0)) 3 = Some [11, 12] \<and>
   map (position_of (fst (moveTask todo_doing 100 11 2 3 0))) [11, 12]
     = [Some 0, Some 0] \<and>
   tasks_of (fst (moveTask todo_doing 100 10 2 3 0)) 2 = Some [11] \<and>
   map (position_of (fst (moveTask todo_doing 100 10 2 3 0))) [11] = [Some 1]"
  by code_simp

section \<open>Within-list reorder\<close>

text \<open>
  Claim C5 asks that a within-list reorder store the supplied array and renumber its
  tasks, so that [X, Y, Z] reordered with Z first becomes [Z, X, Y] with positions
  0, 1, 2. The tasks router registers \<^verbatim>\<open>PUT /:id\<close> before \<^verbatim>\<open>PUT /reorder\<close>, so
  the request \<^verbatim>\<open>PUT /api/tasks/reorder\<close> is handled by the update handler, whose
  \<^verbatim>\<open>Task.findById('reorder')\<close> throws: the answer is 500 and nothing is written.
  Evaluated on Todo = [X, Y, Z] (10, 11, 12) with the id array [Z, X, Y]: the database
  is as before. The same reorder asked of the move route (Z from Todo to index 0 of
  Todo) is answered 500 as well and leaves Todo = [X, Y].
\<close>

theorem reorder_request_answered_500:
  "tasks_of backlog 2 = Some [10, 11, 12] \<and>
   map (position_of backlog) [10, 11, 12] = [Some 0, Some 1, Some 2] \<and>
   handle backlog 100 (reorder_tasks 2 [12, 10, 11]) = (backlog, Inl ServerError) \<and>
   snd (handle backlog 100 (move_task 12 2 2 0)) = Inl ServerError \<and>
   tasks_of (fst (handle backlog 100 (move_task 12 2 2 0))) 2 = Some [10, 11] \<and>
   map (position_of (fst (handle backlog 100 (move_task 12 2 2 0)))) [10, 11, 12]
     = [Some 0, Some 1, Some 2]"
  by code_simp

section \<open>Membership of a task in exactly one list\<close>

text \<open>
  Claim C6 asks that, in every reachable state, a task id be in the array of exactly
  one list, the one its list reference names. After task A (10), created in Todo, is
  moved by a request naming Doing as source and Done as destination (the source list
  is not checked against the task, see C1), A's list reference is Done and A is in the
  arrays of Todo and of Done.
\<close>

theorem task_in_two_lists:
  "list_of misfiled 10 = Some 4 \<and> lists_containing misfiled 10 = [2, 4]"
  by code_simp

section \<open>Recipients of the move event\<close>

text \<open>
  Claim C7, as the code has it, for the move operation. The handler emits through the
  server object, so the \<open>TaskMoved\<close> event of a successful move is delivered to every
  session of the room named by the task's board id, the session of the initiator
  included when it has joined that room; the payload carries the id of the initiating
  user.
\<close>

theorem task_moved_reaches_whole_room:
  assumes ok: "moveTask st user taskId src dst pos = (st', Inr em)"
  shows "\<exists>t. findById_task (db_tasks st) taskId = Some t \<and>
              delivered r (moveTask st user taskId src dst pos)
                = map (\<lambda>s. (s, TaskMoved taskId src dst pos (task_board t) user))
                    (r (task_board t))"
proof -
  from ok obtain t where t: "findById_task (db_tasks st) taskId = Some t"
    by (rule moveTask_InrD)
  have "em = (task_board t, TaskMoved taskId src dst pos (task_board t) user)"
    using ok t by (rule moveTask_emission)
  then have "delivered r (moveTask st user taskId src dst pos)
               = map (\<lambda>s. (s, TaskMoved taskId src dst pos (task_board t) user))
                   (r (task_board t))"
    by (simp add: ok delivered_def io_to_emit_def)
  with t show ?thesis by blast
qed

text \<open>
  With sessions 7 and 8 in the room of board 1, the move of B from Todo to Doing by
  user 100 reaches both sessions.
\<close>

theorem task_moved_reaches_whole_room_witness:
  "two_sessions 1 = [7, 8] \<and>
   moveTask todo_doing 100 11 2 3 0 =
     (fst (moveTask todo_doing 100 11 2 3 0), Inr (1, TaskMoved 11 2 3 0 1 100)) \<and>
   delivered two_sessions (moveTask todo_doing 100 11 2 3 0)
     = [(7, TaskMoved 11 2 3 0 1 100), (8, TaskMoved 11 2 3 0 1 100)]"
proof -
  let ?st' = "fst (moveTask todo_doing 100 11 2 3 0)"
  have r: "two_sessions 1 = [7, 8]" by code_simp
  have ok: "moveTask todo_doing 100 11 2 3 0 = (?st', Inr (1, TaskMoved 11 2 3 0 1 100))"
    by code_simp
  have tb: "map_option task_board (findById_task (db_tasks todo_doing) 11) = Some 1"
    by code_simp
  from task_moved_reaches_whole_room [OF ok, of two_sessions] tb r
  have "delivered two_sessions (moveTask todo_doing 100 11 2 3 0)
          = [(7, TaskMoved 11 2 3 0 1 100), (8, TaskMoved 11 2 3 0 1 100)]"
    by auto
  with r ok show ?thesis by blast
qed

text \<open>
  Claim C7 as stated fails: with the initiator's session 7 the only one in the room of
  board 1, the event of the move is delivered, and to session 7.
\<close>

theorem initiator_receives_own_move:
  "join_board no_rooms 7 1 1 = [7] \<and>
   delivered (join_board no_rooms 7 1) (moveTask todo_doing 100 11 2 3 0)
     = [(7, TaskMoved 11 2 3 0 1 100)]"
  by code_simp

section \<open>Payload of the move event\<close>

text \<open>
  Claim C8, as the code has it, for the move event. The event of a successful move is
  emitted to the room of the task's board and carries the task id, the two list ids,
  the destination index, the board id and the user id: a delta, with no id array of
  either list.
\<close>

theorem task_moved_payload:
  assumes ok: "moveTask st user taskId src dst pos = (st', Inr em)"
  shows "\<exists>t. findById_task (db_tasks st) taskId = Some t \<and>
              em = (task_board t, TaskMoved taskId src dst pos (task_board t) user)"
proof -
  from ok obtain t where t: "findById_task (db_tasks st) taskId = Some t"
    by (rule moveTask_InrD)
  with moveTask_emission [OF ok t] show ?thesis by blast
qed

text \<open>Member 101 of board 1 moves B from Todo to index 1 of Doing.\<close>

theorem task_moved_payload_witness:
  "moveTask todo_doing 101 11 2 3 1 =
     (fst (moveTask todo_doing 101 11 2 3 1), Inr (1, TaskMoved 11 2 3 1 1 101)) \<and>
   (\<exists>t. findById_task (db_tasks todo_doing) 11 = Some t \<and>
        (1::oid, TaskMoved 11 2 3 1 1 101)
          = (task_board t, TaskMoved 11 2 3 1 (task_board t) 101))"
proof -
  have ok: "moveTask todo_doing 101 11 2 3 1 =
              (fst (moveTask todo_doing 101 11 2 3 1), Inr (1, TaskMoved 11 2 3 1 1 101))"
    by code_simp
  from ok task_moved_payload [OF ok] show ?thesis by (rule conjI)
qed

text \<open>
  Claim C8 as stated fails for the move event: moving B to index 0 of Doing = [C, D] and
  of Doing = [D, C] emits the same payload, while the new order of Doing is [B, C, D] in
  one case and [B, D, C] in the other.
\<close>

theorem task_moved_payload_is_a_delta:
  "tasks_of doing_cd 3 = Some [11, 12] \<and> tasks_of doing_dc 3 = Some [12, 11] \<and>
   emitted (moveTask doing_cd 100 10 2 3 0) = Some (1, TaskMoved 10 2 3 0 1 100) \<and>
   emitted (moveTask doing_dc 100 10 2 3 0) = Some (1, TaskMoved 10 2 3 0 1 100) \<and>
   tasks_of (fst (moveTask doing_cd 100 10 2 3 0)) 3 = Some [10, 11, 12] \<and>
   tasks_of (fst (moveTask doing_dc 100 10 2 3 0)) 3 = Some [10, 12, 11]"
  by code_simp

section \<open>The activity log of a move\<close>

text \<open>
  Claim C9. A successful move whose source and destination list ids differ puts exactly
  one new record, by the caller and with action ``moved task'', in front of the log of
  the task's board, the log being cut to its first 50 entries, and leaves every other
  board as it was. A move request whose source and destination list ids are equal
  writes no board, whether it is answered with an error (the task was in the list) or
  not. Any append to a log leaves the new record first, followed by the former
  entries, cut to 50 entries in all, so the oldest ones go first.
\<close>

theorem moveTask_activity_log:
  "(moveTask st user taskId src dst pos = (st', Inr em) \<and> src \<noteq> dst \<and>
    findById_task (db_tasks st) taskId = Some t \<and>
    findById_board (db_boards st) (task_board t) = Some b \<longrightarrow>
      (\<exists>e. act_user e = user \<and> act_action e = ''moved task'' \<and>
           activity_of st' (task_board t) = Some (take 50 (e # board_activity b))) \<and>
      (\<forall>i. i \<noteq> task_board t \<longrightarrow>
           findById_board (db_boards st') i = findById_board (db_boards st) i))
   \<and> db_boards (fst (moveTask st user taskId l l pos)) = db_boards st
   \<and> board_activity (addActivity b0 u a d) =
        take 50 (\<lparr>act_user = u, act_action = a, act_details = d\<rparr> # board_activity b0)
   \<and> length (board_activity (addActivity b0 u a d)) \<le> 50"
proof -
  have cross: "(\<exists>e. act_user e = user \<and> act_action e = ''moved task'' \<and>
                 activity_of st' (task_board t) = Some (take 50 (e # board_activity b))) \<and>
               (\<forall>i. i \<noteq> task_board t \<longrightarrow>
                 findById_board (db_boards st') i = findById_board (db_boards st) i)"
    if ok: "moveTask st user taskId src dst pos = (st', Inr em)" and ne: "src \<noteq> dst"
      and t: "findById_task (db_tasks st) taskId = Some t"
      and b: "findById_board (db_boards st) (task_board t) = Some b"
  proof -
    from ok obtain t' b' sl dl where l: "findById_task (db_tasks st) taskId = Some t'"
      "findById_board (db_boards st) (task_board t') = Some b'" "isMember b' user"
      "findById_list (db_lists st) src = Some sl" "findById_list (db_lists st) dst = Some dl"
      "src \<noteq> dst \<or> taskId \<notin> set (list_tasks sl)"
      by (rule moveTask_InrD)
    from l(1) t have tt: "t' = t" by simp
    with l(2) b have bb: "b' = b" by simp
    have bid: "board_id b = task_board t" using b by (rule findById_board_id)
    let ?d = "''Moved task \"'' @ task_title t @ ''\" from \"'' @ list_title sl
                @ ''\" to \"'' @ list_title dl @ ''\"''"
    let ?e = "\<lparr>act_user = user, act_action = ''moved task'', act_details = ?d\<rparr>"
    have bs: "db_boards st' = save_board (addActivity b user ''moved task'' ?d) (db_boards st)"
      using ok ne moveTask_success [OF l, of pos] unfolding tt bb by auto
    have act: "activity_of st' (task_board t) = Some (take 50 (?e # board_activity b))"
      using bs bid
      by (simp add: activity_of_def findById_board_save addActivity_id addActivity_log
            board_pre_save_def)
    have others: "\<forall>i. i \<noteq> task_board t \<longrightarrow>
                    findById_board (db_boards st') i = findById_board (db_boards st) i"
      using bs bid by (simp add: findById_board_save addActivity_id)
    have "act_user ?e = user \<and> act_action ?e = ''moved task'' \<and>
          activity_of st' (task_board t) = Some (take 50 (?e # board_activity b))"
      using act by simp
    then have "\<exists>e. act_user e = user \<and> act_action e = ''moved task'' \<and>
                 activity_of st' (task_board t) = Some (take 50 (e # board_activity b))"
      by (rule exI)
    with others show ?thesis by blast
  qed
  have len: "length (board_activity (addActivity b0 u a d)) \<le> 50"
    by (simp add: addActivity_log)
  from cross moveTask_same_list_boards [of st user taskId l pos]
    addActivity_log [of b0 u a d] len
  show ?thesis by blast
qed

text \<open>
  On Todo = [A, B], Doing = [C], whose board log has the three creation records: moving
  B from Todo to Doing gives a log of four records, the new one first and the former
  three after it; the request to move B from Todo to Todo is answered 500 and leaves
  the boards as they were.
\<close>

theorem moveTask_activity_log_witness:
  "moveTask todo_doing 100 11 2 3 0 =
     (fst (moveTask todo_doing 100 11 2 3 0), Inr (1, TaskMoved 11 2 3 0 1 100)) \<and>
   (2::oid) \<noteq> 3 \<and>
   map_option length (activity_of todo_doing 1) = Some 3 \<and>
   map_option length (activity_of (fst (moveTask todo_doing 100 11 2 3 0)) 1) = Some 4 \<and>
   map_option (\<lambda>a. act_action (hd a)) (activity_of (fst (moveTask todo_doing 100 11 2 3 0)) 1)
     = Some ''moved task'' \<and>
   map_option tl (activity_of (fst (moveTask todo_doing 100 11 2 3 0)) 1)
     = activity_of todo_doing 1 \<and>
   snd (moveTask todo_doing 100 11 2 2 0) = Inl ServerError \<and>
   db_boards (fst (moveTask todo_doing 100 11 2 2 0)) = db_boards todo_doing"
proof -
  let ?st' = "fst (moveTask todo_doing 100 11 2 3 0)"
  let ?t = "\<lparr>task_id = 11, task_title = ''B'', task_list = 2, task_board = 1, task_position = 1\<rparr>"
  let ?b = "the (findById_board (db_boards todo_doing) 1)"
  have ok: "moveTask todo_doing 100 11 2 3 0 = (?st', Inr (1, TaskMoved 11 2 3 0 1 100))"
    by code_simp
  have err: "snd (moveTask todo_doing 100 11 2 2 0) = Inl ServerError" by code_simp
  have t: "findById_task (db_tasks todo_doing) 11 = Some ?t" by code_simp
  have b: "findById_board (db_boards todo_doing) (task_board ?t) = Some ?b" by code_simp
  have old: "activity_of todo_doing 1 = Some (board_activity ?b)" by code_simp
  have len: "length (board_activity ?b) = 3" by code_simp
  have ne: "(2::oid) \<noteq> 3" by simp
  note th = moveTask_activity_log
              [where st = todo_doing and user = 100 and taskId = 11 and src = 2 and dst = 3
                 and pos = 0 and st' = ?st' and em = "(1, TaskMoved 11 2 3 0 1 100)"
                 and t = ?t and b = ?b and l = 2 and ?b0.0 = ?b and u = 100 and a = "[]"
                 and d = "[]"]
  from th have "moveTask todo_doing 100 11 2 3 0 = (?st', Inr (1, TaskMoved 11 2 3 0 1 100))
        \<and> (2::oid) \<noteq> 3 \<and> findById_task (db_tasks todo_doing) 11 = Some ?t
        \<and> findById_board (db_boards todo_doing) (task_board ?t) = Some ?b \<longrightarrow>
          (\<exists>e. act_user e = 100 \<and> act_action e = ''moved task'' \<and>
               activity_of ?st' (task_board ?t) = Some (take 50 (e # board_activity ?b))) \<and>
          (\<forall>i. i \<noteq> task_board ?t \<longrightarrow>
               findById_board (db_boards ?st') i = findById_board (db_boards todo_doing) i)"
    by (rule conjunct1)
  with ok ne t b obtain e where e0: "act_action e = ''moved task''"
    "activity_of ?st' (task_board ?t) = Some (take 50 (e # board_activity ?b))"
    by blast
  have e: "act_action e = ''moved task''"
    "activity_of ?st' 1 = Some (take 50 (e # board_activity ?b))"
    using e0 by simp_all
  have "take 50 (e # board_activity ?b) = e # board_activity ?b"
    using len by simp
  with e have new: "activity_of ?st' 1 = Some (e # board_activity ?b)" by simp
  from th have same: "db_boards (fst (moveTask todo_doing 100 11 2 2 0)) = db_boards todo_doing"
    by blast
  from new e(1) old len ok err same show ?thesis by simp
qed

section \<open>Reordering the lists of a board\<close>

text \<open>
  Claim C10 says that a list-reorder request by a member of the named board gives
  every list named in \<open>listIds\<close> its index as position. The lists router registers
  \<^verbatim>\<open>PUT /:id\<close> before \<^verbatim>\<open>PUT /reorder\<close>, so the request
  \<^verbatim>\<open>PUT /api/lists/reorder\<close> is handled by the update handler, whose
  \<^verbatim>\<open>List.findById('reorder')\<close> throws: the answer is 500 and no position is
  written. Evaluated on board 1 with Todo, Doing, Done at positions 0, 1, 2 and the
  request of its owner with the ids [Doing, Todo, Done]: the database is as before.
\<close>

theorem list_reorder_request_answered_500:
  "map_option (\<lambda>b. isMember b 100) (findById_board (db_boards db0) 1) = Some True \<and>
   list_positions db0 [3, 2, 4] = [Some 1, Some 0, Some 2] \<and>
   handle db0 100 (reorder_lists 1 [3, 2, 4]) = (db0, Inl ServerError) \<and>
   list_positions (fst (handle db0 100 (reorder_lists 1 [3, 2, 4]))) [3, 2, 4]
     = [Some 1, Some 0, Some 2]"
  by code_simp

end
